theory Spec2Isabelle
  imports Main "HOL-Library.Word" "HOL-Library.Finite_Map"
begin

section \<open>The Move module \<open>contract::nft_marketplace\<close>\<close>

text \<open>
  The marketplace logic of the repository is one Sui Move module. Its entry functions
  take the shared registry by mutable reference, the NFT (and, for a purchase, the
  payment coin) by value, and the transaction context. Each one is embedded here as a pure
  function from these arguments to either an abort or the updated registry together with
  the effects of the call: the events emitted and the objects handed to
  \<open>transfer::public_transfer\<close>, in program order.

  A Move abort reverts the whole transaction: nothing that the function did before the
  failing \<open>assert!\<close> survives. An aborting call is therefore the value \<open>Inl code\<close> and carries
  no successor state. Arithmetic on \<open>u64\<close> is checked: the virtual machine aborts on
  overflow and underflow.
\<close>

subsection \<open>Primitive types\<close>

type_synonym u8 = "8 word"
type_synonym u64 = "64 word"
type_synonym address = "256 word"
type_synonym ID = "256 word"

text \<open>
  The aborts a call can end in. The first four are the error constants of the module
  (codes 1 to 4); the others are raised inside the Move standard library, the Sui
  framework and the virtual machine.
\<close>

datatype abort =
    ENotOwner
  | EInsufficientPayment
  | ENotListed
  | EInvalidPrice
  | EInvalidUTF8
  | EInvalidASCIICharacter
  | EFieldAlreadyExists
  | EFieldDoesNotExist
  | ArithmeticError

fun module_code :: "abort \<Rightarrow> nat option" where
  "module_code ENotOwner = Some 1"
| "module_code EInsufficientPayment = Some 2"
| "module_code ENotListed = Some 3"
| "module_code EInvalidPrice = Some 4"
| "module_code _ = None"

definition checked_add :: "u64 \<Rightarrow> u64 \<Rightarrow> abort + u64" where
  "checked_add a b = (if unat a + unat b < 2 ^ 64 then Inr (a + b) else Inl ArithmeticError)"

definition checked_sub :: "u64 \<Rightarrow> u64 \<Rightarrow> abort + u64" where
  "checked_sub a b = (if unat b \<le> unat a then Inr (a - b) else Inl ArithmeticError)"

subsection \<open>Library functions used by the module\<close>

text \<open>
  \<open>std::string::utf8\<close> aborts unless the native check accepts the bytes. The check is
  that of well-formed UTF-8: one to four bytes per code point, no overlong form, no
  surrogate, nothing above U+10FFFF.
\<close>

definition cont_byte :: "u8 \<Rightarrow> bool" where
  "cont_byte b = (0x80 \<le> b \<and> b \<le> 0xBF)"

fun internal_check_utf8 :: "u8 list \<Rightarrow> bool" where
  "internal_check_utf8 [] = True"
| "internal_check_utf8 [b0] = (b0 \<le> 0x7F)"
| "internal_check_utf8 [b0, b1] =
     (if b0 \<le> 0x7F then internal_check_utf8 [b1]
      else 0xC2 \<le> b0 \<and> b0 \<le> 0xDF \<and> cont_byte b1)"
| "internal_check_utf8 [b0, b1, b2] =
     (if b0 \<le> 0x7F then internal_check_utf8 [b1, b2]
      else if 0xC2 \<le> b0 \<and> b0 \<le> 0xDF then cont_byte b1 \<and> internal_check_utf8 [b2]
      else if b0 = 0xE0 then 0xA0 \<le> b1 \<and> b1 \<le> 0xBF \<and> cont_byte b2
      else if b0 = 0xED then 0x80 \<le> b1 \<and> b1 \<le> 0x9F \<and> cont_byte b2
      else 0xE1 \<le> b0 \<and> b0 \<le> 0xEF \<and> cont_byte b1 \<and> cont_byte b2)"
| "internal_check_utf8 (b0 # b1 # b2 # b3 # bs) =
     (if b0 \<le> 0x7F then internal_check_utf8 (b1 # b2 # b3 # bs)
      else if 0xC2 \<le> b0 \<and> b0 \<le> 0xDF then cont_byte b1 \<and> internal_check_utf8 (b2 # b3 # bs)
      else if b0 = 0xE0 then
        0xA0 \<le> b1 \<and> b1 \<le> 0xBF \<and> cont_byte b2 \<and> internal_check_utf8 (b3 # bs)
      else if b0 = 0xED then
        0x80 \<le> b1 \<and> b1 \<le> 0x9F \<and> cont_byte b2 \<and> internal_check_utf8 (b3 # bs)
      else if 0xE1 \<le> b0 \<and> b0 \<le> 0xEF then
        cont_byte b1 \<and> cont_byte b2 \<and> internal_check_utf8 (b3 # bs)
      else if b0 = 0xF0 then
        0x90 \<le> b1 \<and> b1 \<le> 0xBF \<and> cont_byte b2 \<and> cont_byte b3 \<and> internal_check_utf8 bs
      else if b0 = 0xF4 then
        0x80 \<le> b1 \<and> b1 \<le> 0x8F \<and> cont_byte b2 \<and> cont_byte b3 \<and> internal_check_utf8 bs
      else 0xF1 \<le> b0 \<and> b0 \<le> 0xF3 \<and> cont_byte b1 \<and> cont_byte b2 \<and> cont_byte b3
        \<and> internal_check_utf8 bs)"

definition utf8 :: "u8 list \<Rightarrow> abort + u8 list" where
  "utf8 bytes = (if internal_check_utf8 bytes then Inr bytes else Inl EInvalidUTF8)"

text \<open>
  \<open>sui::url::new_unsafe_from_bytes\<close> wraps the bytes in an \<open>std::ascii::String\<close>. It checks
  nothing about the form of a URL, but \<open>std::ascii::string\<close> aborts on a byte that is not
  a 7-bit character.
\<close>

definition is_valid_char :: "u8 \<Rightarrow> bool" where
  "is_valid_char b = (b \<le> 0x7F)"

definition ascii_string :: "u8 list \<Rightarrow> abort + u8 list" where
  "ascii_string bytes =
     (if list_all is_valid_char bytes then Inr bytes else Inl EInvalidASCIICharacter)"

definition new_unsafe_from_bytes :: "u8 list \<Rightarrow> abort + u8 list" where
  "new_unsafe_from_bytes bytes = ascii_string bytes"

subsection \<open>Structs\<close>

record NFT =
  uid :: ID
  name :: "u8 list"
  description :: "u8 list"
  url :: "u8 list"
  creator :: address
  owner :: address

record Listing =
  nft_id :: ID
  seller :: address
  price :: u64
  listed :: bool

text \<open>
  The registry is the one shared object. \<open>Table<ID, Listing>\<close> is a finite map: \<open>table::add\<close>
  aborts on a key that is present and \<open>table::remove\<close> on one that is absent.
\<close>

record NftMarketplaceRegistry =
  total_nfts_minted :: u64
  total_nfts_listed :: u64
  total_sales :: u64
  total_volume :: u64
  listings :: "(ID, Listing) fmap"

record Coin =
  coin_uid :: ID
  balance :: u64

definition coin_value :: "Coin \<Rightarrow> u64" where
  "coin_value c = balance c"

text \<open>
  What the module reads from \<open>TxContext\<close>: the sender, and the identifier that
  \<open>object::new\<close> hands out.
\<close>

record TxContext =
  sender :: address
  fresh_uid :: ID

definition object_id :: "NFT \<Rightarrow> ID" where
  "object_id nft = uid nft"

definition table_contains :: "(ID, Listing) fmap \<Rightarrow> ID \<Rightarrow> bool" where
  "table_contains t k = (fmlookup t k \<noteq> None)"

definition table_add :: "(ID, Listing) fmap \<Rightarrow> ID \<Rightarrow> Listing \<Rightarrow> abort + (ID, Listing) fmap" where
  "table_add t k v = (if table_contains t k then Inl EFieldAlreadyExists else Inr (fmupd k v t))"

definition table_remove :: "(ID, Listing) fmap \<Rightarrow> ID \<Rightarrow> abort + (Listing \<times> (ID, Listing) fmap)" where
  "table_remove t k =
     (case fmlookup t k of None \<Rightarrow> Inl EFieldDoesNotExist | Some v \<Rightarrow> Inr (v, fmdrop k t))"

subsection \<open>Events and effects\<close>

datatype event =
    NFTMinted ID address address "u8 list" "u8 list"
  | NFTListed ID address u64
  | NFTDelisted ID address
  | NFTSold ID address address u64
  | OwnerUpdated ID address address

text \<open>
  The effects of a call that does not abort: the events in the order of emission, and
  the NFT and coin objects passed to \<open>transfer::public_transfer\<close> with their recipients.
\<close>

record effects =
  emitted :: "event list"
  nft_sent :: "(NFT \<times> address) list"
  coin_sent :: "(Coin \<times> address) list"

definition init_registry :: NftMarketplaceRegistry where
  "init_registry =
     \<lparr>total_nfts_minted = 0, total_nfts_listed = 0, total_sales = 0, total_volume = 0,
      listings = fmempty\<rparr>"

subsection \<open>Entry functions\<close>

definition mint_nft ::
  "NftMarketplaceRegistry \<Rightarrow> u8 list \<Rightarrow> u8 list \<Rightarrow> u8 list \<Rightarrow> TxContext
     \<Rightarrow> abort + (NftMarketplaceRegistry \<times> effects)" where
  "mint_nft registry name_bytes description_bytes url_bytes ctx =
     (case utf8 name_bytes of
        Inl e \<Rightarrow> Inl e
      | Inr nft_name \<Rightarrow>
         (case new_unsafe_from_bytes url_bytes of
            Inl e \<Rightarrow> Inl e
          | Inr nft_url \<Rightarrow>
             (case utf8 description_bytes of
                Inl e \<Rightarrow> Inl e
              | Inr nft_description \<Rightarrow>
                 (let nft = \<lparr>uid = fresh_uid ctx, name = nft_name,
                             description = nft_description, url = nft_url,
                             creator = sender ctx, owner = sender ctx\<rparr>;
                      nft_id = object_id nft
                  in case checked_add (total_nfts_minted registry) 1 of
                       Inl e \<Rightarrow> Inl e
                     | Inr minted \<Rightarrow>
                        Inr (registry\<lparr>total_nfts_minted := minted\<rparr>,
                             \<lparr>emitted = [NFTMinted nft_id (sender ctx) (sender ctx) (name nft)
                                          nft_url],
                              nft_sent = [(nft, sender ctx)],
                              coin_sent = []\<rparr>)))))"

text \<open>
  The address \<open>@nft_marketplace\<close> that receives a listed NFT is set in the package manifest,
  not in the module; it is the first argument of \<open>list_nft\<close>.
\<close>

definition list_nft ::
  "address \<Rightarrow> NftMarketplaceRegistry \<Rightarrow> NFT \<Rightarrow> u64 \<Rightarrow> TxContext
     \<Rightarrow> abort + (NftMarketplaceRegistry \<times> effects)" where
  "list_nft nft_marketplace registry nft price_arg ctx =
     (if \<not> (price_arg > 0) then Inl EInvalidPrice
      else if \<not> (owner nft = sender ctx) then Inl ENotOwner
      else
        (let nft_id = object_id nft;
             listing = \<lparr>nft_id = nft_id, seller = sender ctx, price = price_arg, listed = True\<rparr>
         in case table_add (listings registry) nft_id listing of
              Inl e \<Rightarrow> Inl e
            | Inr tbl \<Rightarrow>
               (case checked_add (total_nfts_listed registry) 1 of
                  Inl e \<Rightarrow> Inl e
                | Inr n \<Rightarrow>
                   Inr (registry\<lparr>listings := tbl, total_nfts_listed := n\<rparr>,
                        \<lparr>emitted = [NFTListed nft_id (sender ctx) price_arg],
                         nft_sent = [(nft, nft_marketplace)],
                         coin_sent = []\<rparr>))))"

definition delist_nft ::
  "NftMarketplaceRegistry \<Rightarrow> NFT \<Rightarrow> TxContext \<Rightarrow> abort + (NftMarketplaceRegistry \<times> effects)" where
  "delist_nft registry nft ctx =
     (let nft_id = object_id nft in
      if \<not> table_contains (listings registry) nft_id then Inl ENotListed
      else
        (case table_remove (listings registry) nft_id of
           Inl e \<Rightarrow> Inl e
         | Inr (listing, tbl) \<Rightarrow>
            (if \<not> (seller listing = sender ctx) then Inl ENotOwner
             else
               (case checked_sub (total_nfts_listed registry) 1 of
                  Inl e \<Rightarrow> Inl e
                | Inr n \<Rightarrow>
                   Inr (registry\<lparr>listings := tbl, total_nfts_listed := n\<rparr>,
                        \<lparr>emitted = [NFTDelisted nft_id (sender ctx)],
                         nft_sent = [(nft, sender ctx)],
                         coin_sent = []\<rparr>)))))"

definition buy_nft ::
  "NftMarketplaceRegistry \<Rightarrow> NFT \<Rightarrow> Coin \<Rightarrow> TxContext
     \<Rightarrow> abort + (NftMarketplaceRegistry \<times> effects)" where
  "buy_nft registry nft payment ctx =
     (let buyer = sender ctx; nft_id = object_id nft in
      if \<not> table_contains (listings registry) nft_id then Inl ENotListed
      else
        (case table_remove (listings registry) nft_id of
           Inl e \<Rightarrow> Inl e
         | Inr (listing, tbl) \<Rightarrow>
            (if \<not> (coin_value payment \<ge> price listing) then Inl EInsufficientPayment
             else
               (let old_owner = owner nft;
                    owned_nft = nft\<lparr>owner := buyer\<rparr>
                in case checked_add (total_sales registry) 1 of
                     Inl e \<Rightarrow> Inl e
                   | Inr sales \<Rightarrow>
                      (case checked_add (total_volume registry) (price listing) of
                         Inl e \<Rightarrow> Inl e
                       | Inr volume \<Rightarrow>
                          (case checked_sub (total_nfts_listed registry) 1 of
                             Inl e \<Rightarrow> Inl e
                           | Inr n \<Rightarrow>
                              Inr (registry\<lparr>listings := tbl, total_sales := sales,
                                     total_volume := volume, total_nfts_listed := n\<rparr>,
                                   \<lparr>emitted =
                                      [NFTSold nft_id (seller listing) buyer (price listing),
                                       OwnerUpdated nft_id old_owner buyer],
                                    nft_sent = [(owned_nft, buyer)],
                                    coin_sent = [(payment, seller listing)]\<rparr>)))))))"

text \<open>\<open>update_owner\<close> has no registry parameter: it sees the NFT and the context only.\<close>

definition update_owner :: "NFT \<Rightarrow> address \<Rightarrow> TxContext \<Rightarrow> abort + effects" where
  "update_owner nft new_owner ctx =
     (if \<not> (owner nft = sender ctx) then Inl ENotOwner
      else
        let nft_id = object_id nft;
            old_owner = owner nft;
            owned_nft = nft\<lparr>owner := new_owner\<rparr>
        in Inr \<lparr>emitted = [OwnerUpdated nft_id old_owner new_owner],
                nft_sent = [(owned_nft, new_owner)],
                coin_sent = []\<rparr>)"

subsection \<open>Transactions\<close>

text \<open>
  A call of one of the five entry functions with its arguments. The NFT is passed by
  value, as in the source; nothing is assumed about which NFT values a caller can present.
\<close>

datatype call =
    MintNft "u8 list" "u8 list" "u8 list" TxContext
  | ListNft NFT u64 TxContext
  | DelistNft NFT TxContext
  | BuyNft NFT Coin TxContext
  | UpdateOwner NFT address TxContext

fun exec ::
  "address \<Rightarrow> NftMarketplaceRegistry \<Rightarrow> call \<Rightarrow> abort + (NftMarketplaceRegistry \<times> effects)" where
  "exec mkt r (MintNft n d u ctx) = mint_nft r n d u ctx"
| "exec mkt r (ListNft nft p ctx) = list_nft mkt r nft p ctx"
| "exec mkt r (DelistNft nft ctx) = delist_nft r nft ctx"
| "exec mkt r (BuyNft nft payment ctx) = buy_nft r nft payment ctx"
| "exec mkt r (UpdateOwner nft new_owner ctx) =
     (case update_owner nft new_owner ctx of Inl e \<Rightarrow> Inl e | Inr fx \<Rightarrow> Inr (r, fx))"

text \<open>
  The registry after a transaction: the updated one if the call returns, the old one if
  it aborts.
\<close>

definition step :: "address \<Rightarrow> NftMarketplaceRegistry \<Rightarrow> call \<Rightarrow> NftMarketplaceRegistry" where
  "step mkt r c = (case exec mkt r c of Inl e \<Rightarrow> r | Inr (r', fx) \<Rightarrow> r')"

definition run :: "address \<Rightarrow> NftMarketplaceRegistry \<Rightarrow> call list \<Rightarrow> NftMarketplaceRegistry" where
  "run mkt r cs = foldl (step mkt) r cs"

text \<open>The registries that arise from the initial one by calls that return.\<close>

inductive reachable :: "address \<Rightarrow> NftMarketplaceRegistry \<Rightarrow> bool" for mkt :: address where
  init: "reachable mkt init_registry"
| call: "reachable mkt r \<Longrightarrow> exec mkt r c = Inr (r', fx) \<Longrightarrow> reachable mkt r'"

fun lists_asset :: "ID \<Rightarrow> call \<Rightarrow> bool" where
  "lists_asset i (ListNft nft p ctx) = (object_id nft = i)"
| "lists_asset i _ = False"

fun asset_in :: "call \<Rightarrow> NFT option" where
  "asset_in (MintNft n d u ctx) = None"
| "asset_in (ListNft nft p ctx) = Some nft"
| "asset_in (DelistNft nft ctx) = Some nft"
| "asset_in (BuyNft nft payment ctx) = Some nft"
| "asset_in (UpdateOwner nft new_owner ctx) = Some nft"

fun writes_owner :: "call \<Rightarrow> bool" where
  "writes_owner (BuyNft nft payment ctx) = True"
| "writes_owner (UpdateOwner nft new_owner ctx) = True"
| "writes_owner _ = False"

subsection \<open>Sample transactions\<close>

text \<open>
  Three addresses, one of them the marketplace's own, and the objects and contexts of a
  few transactions that the statements below are evaluated at.
\<close>

definition mkt_addr :: address where
  "mkt_addr = 0x4D"

definition alice :: address where
  "alice = 0xA1"

definition bob :: address where
  "bob = 0xB0"

definition ctx_alice :: TxContext where
  "ctx_alice = \<lparr>sender = alice, fresh_uid = 1\<rparr>"

definition ctx_bob :: TxContext where
  "ctx_bob = \<lparr>sender = bob, fresh_uid = 2\<rparr>"

definition ctx_mkt :: TxContext where
  "ctx_mkt = \<lparr>sender = mkt_addr, fresh_uid = 3\<rparr>"

text \<open>The NFTs that \<open>mint_nft\<close> creates for \<open>alice\<close> and for the marketplace address.\<close>

definition asset_alice :: NFT where
  "asset_alice =
     \<lparr>uid = 1, name = [0x41], description = [0x42], url = [0x75], creator = alice, owner = alice\<rparr>"

definition asset_mkt :: NFT where
  "asset_mkt =
     \<lparr>uid = 3, name = [0x41], description = [0x42], url = [0x75], creator = mkt_addr,
      owner = mkt_addr\<rparr>"

definition coin150 :: Coin where
  "coin150 = \<lparr>coin_uid = 0xC0, balance = 150\<rparr>"

definition coin50 :: Coin where
  "coin50 = \<lparr>coin_uid = 0xC2, balance = 50\<rparr>"

definition half_coin :: Coin where
  "half_coin = \<lparr>coin_uid = 0xC1, balance = 2 ^ 63\<rparr>"

text \<open>\<open>alice\<close> mints an NFT and lists it for 100.\<close>

definition listed_registry :: NftMarketplaceRegistry where
  "listed_registry =
     run mkt_addr init_registry
       [MintNft [0x41] [0x42] [0x75] ctx_alice, ListNft asset_alice 100 ctx_alice]"

text \<open>
  \<open>alice\<close> lists her NFT for \<open>2 ^ 63\<close>, the marketplace address buys it and lists it again
  for the same price.
\<close>

definition resale_registry :: NftMarketplaceRegistry where
  "resale_registry =
     run mkt_addr init_registry
       [MintNft [0x41] [0x42] [0x75] ctx_alice,
        ListNft asset_alice (2 ^ 63) ctx_alice,
        BuyNft asset_alice half_coin ctx_mkt,
        ListNft (asset_alice\<lparr>owner := mkt_addr\<rparr>) (2 ^ 63) ctx_mkt]"

text \<open>The marketplace address mints an NFT of its own and lists it for 100.\<close>

definition own_listing_registry :: NftMarketplaceRegistry where
  "own_listing_registry =
     run mkt_addr init_registry
       [MintNft [0x41] [0x42] [0x75] ctx_mkt, ListNft asset_mkt 100 ctx_mkt]"

text \<open>
  The marketplace address lists its NFT for \<open>2 ^ 63\<close>, buys it from itself and lists it
  again for the same price.
\<close>

definition self_trade_registry :: NftMarketplaceRegistry where
  "self_trade_registry =
     run mkt_addr init_registry
       [MintNft [0x41] [0x42] [0x75] ctx_mkt,
        ListNft asset_mkt (2 ^ 63) ctx_mkt,
        BuyNft asset_mkt half_coin ctx_mkt,
        ListNft asset_mkt (2 ^ 63) ctx_mkt]"

section \<open>Properties\<close>

subsection \<open>Checked arithmetic and the entry functions as decision lists\<close>

text \<open>
  Each entry function is rewritten as the list of its abort conditions, in the order the
  body meets them, followed by the result of a call that passes them all.
\<close>

lemma unat_add_ok: "unat (a :: u64) + unat b < 2 ^ 64 \<Longrightarrow> unat (a + b) = unat a + unat b"
  by (simp add: unat_word_ariths)

lemma unat_pred_ok: "0 < unat (a :: u64) \<Longrightarrow> unat (a - 1) + 1 = unat a"
  by (simp add: unat_sub_if')

lemma checked_sub_one: "checked_sub a 1 = (if 0 < unat a then Inr (a - 1) else Inl ArithmeticError)"
  by (auto simp: checked_sub_def)

lemma buy_nft_unfold:
  "buy_nft r nft payment ctx =
     (case fmlookup (listings r) (object_id nft) of
        None \<Rightarrow> Inl ENotListed
      | Some l \<Rightarrow>
          if coin_value payment < price l then Inl EInsufficientPayment
          else if \<not> unat (total_sales r) + 1 < 2 ^ 64 then Inl ArithmeticError
          else if \<not> unat (total_volume r) + unat (price l) < 2 ^ 64 then Inl ArithmeticError
          else if unat (total_nfts_listed r) = 0 then Inl ArithmeticError
          else Inr (r\<lparr>listings := fmdrop (object_id nft) (listings r),
                       total_sales := total_sales r + 1,
                       total_volume := total_volume r + price l,
                       total_nfts_listed := total_nfts_listed r - 1\<rparr>,
                    \<lparr>emitted = [NFTSold (object_id nft) (seller l) (sender ctx) (price l),
                                OwnerUpdated (object_id nft) (owner nft) (sender ctx)],
                     nft_sent = [(nft\<lparr>owner := sender ctx\<rparr>, sender ctx)],
                     coin_sent = [(payment, seller l)]\<rparr>))"
  by (simp add: buy_nft_def table_contains_def table_remove_def checked_add_def
      checked_sub_one Let_def not_le split: option.split)

lemma delist_nft_unfold:
  "delist_nft r nft ctx =
     (case fmlookup (listings r) (object_id nft) of
        None \<Rightarrow> Inl ENotListed
      | Some l \<Rightarrow>
          if seller l \<noteq> sender ctx then Inl ENotOwner
          else if unat (total_nfts_listed r) = 0 then Inl ArithmeticError
          else Inr (r\<lparr>listings := fmdrop (object_id nft) (listings r),
                       total_nfts_listed := total_nfts_listed r - 1\<rparr>,
                    \<lparr>emitted = [NFTDelisted (object_id nft) (sender ctx)],
                     nft_sent = [(nft, sender ctx)],
                     coin_sent = []\<rparr>))"
  by (simp add: delist_nft_def table_contains_def table_remove_def checked_sub_one Let_def
      split: option.split)

lemma list_nft_unfold:
  "list_nft mkt r nft p ctx =
     (if p = 0 then Inl EInvalidPrice
      else if owner nft \<noteq> sender ctx then Inl ENotOwner
      else if fmlookup (listings r) (object_id nft) \<noteq> None then Inl EFieldAlreadyExists
      else if \<not> unat (total_nfts_listed r) + 1 < 2 ^ 64 then Inl ArithmeticError
      else Inr (r\<lparr>listings := fmupd (object_id nft)
                       \<lparr>nft_id = object_id nft, seller = sender ctx, price = p, listed = True\<rparr>
                       (listings r),
                   total_nfts_listed := total_nfts_listed r + 1\<rparr>,
                \<lparr>emitted = [NFTListed (object_id nft) (sender ctx) p],
                 nft_sent = [(nft, mkt)],
                 coin_sent = []\<rparr>))"
  by (simp add: list_nft_def table_contains_def table_add_def checked_add_def Let_def
      word_greater_zero_iff)

lemma mint_nft_unfold:
  "mint_nft r n d u ctx =
     (if \<not> internal_check_utf8 n then Inl EInvalidUTF8
      else if \<not> list_all is_valid_char u then Inl EInvalidASCIICharacter
      else if \<not> internal_check_utf8 d then Inl EInvalidUTF8
      else if \<not> unat (total_nfts_minted r) + 1 < 2 ^ 64 then Inl ArithmeticError
      else Inr (r\<lparr>total_nfts_minted := total_nfts_minted r + 1\<rparr>,
                \<lparr>emitted = [NFTMinted (fresh_uid ctx) (sender ctx) (sender ctx) n u],
                 nft_sent = [(\<lparr>uid = fresh_uid ctx, name = n, description = d, url = u,
                              creator = sender ctx, owner = sender ctx\<rparr>, sender ctx)],
                 coin_sent = []\<rparr>))"
  by (simp add: mint_nft_def utf8_def new_unsafe_from_bytes_def ascii_string_def checked_add_def
      object_id_def Let_def)

subsection \<open>The sample registries, evaluated\<close>

lemmas sample_defs = mkt_addr_def alice_def bob_def ctx_alice_def ctx_bob_def ctx_mkt_def
  asset_alice_def asset_mkt_def coin150_def coin50_def half_coin_def

lemmas call_unfolds = mint_nft_unfold list_nft_unfold delist_nft_unfold buy_nft_unfold
  update_owner_def step_def run_def object_id_def coin_value_def init_registry_def
  is_valid_char_def fmdrop_fmupd_same

lemma listed_registry_eq:
  "listed_registry =
     \<lparr>total_nfts_minted = 1, total_nfts_listed = 1, total_sales = 0, total_volume = 0,
      listings = fmupd 1 \<lparr>nft_id = 1, seller = alice, price = 100, listed = True\<rparr> fmempty\<rparr>"
  by (simp add: listed_registry_def sample_defs call_unfolds)

lemma resale_registry_eq:
  "resale_registry =
     \<lparr>total_nfts_minted = 1, total_nfts_listed = 1, total_sales = 1, total_volume = 2 ^ 63,
      listings = fmupd 1 \<lparr>nft_id = 1, seller = mkt_addr, price = 2 ^ 63, listed = True\<rparr> fmempty\<rparr>"
  by (simp add: resale_registry_def sample_defs call_unfolds)

lemma own_listing_registry_eq:
  "own_listing_registry =
     \<lparr>total_nfts_minted = 1, total_nfts_listed = 1, total_sales = 0, total_volume = 0,
      listings = fmupd 3 \<lparr>nft_id = 3, seller = mkt_addr, price = 100, listed = True\<rparr> fmempty\<rparr>"
  by (simp add: own_listing_registry_def sample_defs call_unfolds)

lemma self_trade_registry_eq:
  "self_trade_registry =
     \<lparr>total_nfts_minted = 1, total_nfts_listed = 1, total_sales = 1, total_volume = 2 ^ 63,
      listings = fmupd 3 \<lparr>nft_id = 3, seller = mkt_addr, price = 2 ^ 63, listed = True\<rparr> fmempty\<rparr>"
  by (simp add: self_trade_registry_def sample_defs call_unfolds)

subsection \<open>Reachable registries\<close>

lemma step_cases: "step mkt r c = r \<or> (\<exists>fx. exec mkt r c = Inr (step mkt r c, fx))"
  by (auto simp: step_def split: sum.splits)

lemma reachable_step: "reachable mkt r \<Longrightarrow> reachable mkt (step mkt r c)"
  using step_cases [of mkt r c] by (auto intro: reachable.call)

lemma reachable_run: "reachable mkt r \<Longrightarrow> reachable mkt (run mkt r cs)"
  unfolding run_def by (induction cs arbitrary: r) (simp_all add: reachable_step)

lemma fcard_add_key: "fmlookup t k = None \<Longrightarrow> fcard (fmdom (fmupd k v t)) = fcard (fmdom t) + 1"
  by (simp add: fcard_finsert_disjoint fmdom_notI)

lemma fcard_drop_key: "fmlookup t k = Some v \<Longrightarrow> fcard (fmdom (fmdrop k t)) + 1 = fcard (fmdom t)"
  using fcard_Suc_fminus1 [of k "fmdom t"] by (simp add: fmdomI)

lemma exec_counter_step:
  assumes inv: "unat (total_nfts_listed r) = fcard (fmdom (listings r))"
    and ex: "exec mkt r c = Inr (r', fx)"
  shows "unat (total_nfts_listed r') = fcard (fmdom (listings r'))"
proof (cases c)
  case (MintNft n d u ctx)
  with ex inv show ?thesis
    by (auto simp: mint_nft_unfold split: if_splits)
next
  case (ListNft nft p ctx)
  with ex have none: "fmlookup (listings r) (object_id nft) = None"
    and room: "unat (total_nfts_listed r) + unat (1 :: u64) < 2 ^ 64"
    and r': "listings r' = fmupd (object_id nft)
               \<lparr>nft_id = object_id nft, seller = sender ctx, price = p, listed = True\<rparr> (listings r)"
            "total_nfts_listed r' = total_nfts_listed r + 1"
    by (auto simp: list_nft_unfold split: if_splits)
  from unat_add_ok [OF room] fcard_add_key [OF none] inv r' show ?thesis
    by simp
next
  case (DelistNft nft ctx)
  with ex obtain l where l: "fmlookup (listings r) (object_id nft) = Some l"
    and pos: "0 < unat (total_nfts_listed r)"
    and r': "r' = r\<lparr>listings := fmdrop (object_id nft) (listings r),
                     total_nfts_listed := total_nfts_listed r - 1\<rparr>"
    by (auto simp: delist_nft_unfold split: option.splits if_splits)
  from unat_pred_ok [OF pos] fcard_drop_key [OF l] inv r' show ?thesis
    by simp
next
  case (BuyNft nft payment ctx)
  with ex obtain l where l: "fmlookup (listings r) (object_id nft) = Some l"
    and pos: "0 < unat (total_nfts_listed r)"
    and r': "listings r' = fmdrop (object_id nft) (listings r)"
            "total_nfts_listed r' = total_nfts_listed r - 1"
    by (auto simp: buy_nft_unfold split: option.splits if_splits)
  from unat_pred_ok [OF pos] fcard_drop_key [OF l] inv r' show ?thesis
    by simp
next
  case (UpdateOwner nft new_owner ctx)
  with ex inv show ?thesis
    by (auto split: sum.splits)
qed

subsection \<open>The statements\<close>

text \<open>
  C3. In every registry reachable from the initial one by calls of \<open>mint_nft\<close>, \<open>list_nft\<close>,
  \<open>delist_nft\<close>, \<open>buy_nft\<close> and \<open>update_owner\<close>, whatever their arguments, the counter
  \<open>total_nfts_listed\<close> equals the number of entries of the table \<open>listings\<close>.
\<close>

theorem listed_counter_is_table_size:
  "reachable mkt r \<Longrightarrow> unat (total_nfts_listed r) = fcard (fmdom (listings r))"
proof (induction rule: reachable.induct)
  case init
  show ?case by (simp add: init_registry_def)
next
  case (call r c r' fx)
  from call.IH call.hyps(2) show ?case by (rule exec_counter_step)
qed

theorem listed_counter_is_table_size_witness:
  "reachable mkt_addr listed_registry
   \<and> unat (total_nfts_listed listed_registry) = 1
   \<and> fcard (fmdom (listings listed_registry)) = 1"
proof -
  have reach: "reachable mkt_addr listed_registry"
    unfolding listed_registry_def by (rule reachable_run [OF reachable.init])
  have one: "unat (total_nfts_listed listed_registry) = 1"
    by (simp add: listed_registry_eq)
  from reach one listed_counter_is_table_size [OF reach] show ?thesis
    by simp
qed

text \<open>
  C1, as stated, promises that \<open>buy_nft\<close> succeeds in every state that holds a Listing
  for the asset whenever the payment covers the price. The counters are \<open>u64\<close> and the
  additions are checked: after one sale at \<open>2 ^ 63\<close>, a second purchase at the same price
  of the asset, listed again, aborts, because \<open>total_volume + price\<close> does not fit.
\<close>

theorem buy_nft_volume_overflow_counterexample:
  "reachable mkt_addr resale_registry
   \<and> fmlookup (listings resale_registry) (object_id (asset_alice\<lparr>owner := mkt_addr\<rparr>))
       = Some \<lparr>nft_id = 1, seller = mkt_addr, price = 2 ^ 63, listed = True\<rparr>
   \<and> (2 ^ 63 :: u64) \<le> coin_value half_coin
   \<and> buy_nft resale_registry (asset_alice\<lparr>owner := mkt_addr\<rparr>) half_coin ctx_mkt
       = Inl ArithmeticError"
proof -
  have "reachable mkt_addr resale_registry"
    unfolding resale_registry_def by (rule reachable_run [OF reachable.init])
  then show ?thesis
    by (simp add: resale_registry_eq buy_nft_unfold sample_defs object_id_def coin_value_def)
qed

text \<open>
  C1, amended. When a Listing \<open>l\<close> exists for the asset, the payment is at least
  \<open>price l\<close>, and the three counter updates stay within \<open>u64\<close> (\<open>total_sales + 1\<close> and
  \<open>total_volume + price l\<close> do not overflow, \<open>total_nfts_listed\<close> is not zero), \<open>buy_nft\<close>
  returns and, in one step: the Listing is removed, the NFT goes to the buyer with its
  owner field set to the buyer, the whole payment coin goes to the seller, \<open>total_sales\<close>
  grows by 1, \<open>total_volume\<close> by \<open>price l\<close> and not by the payment, and \<open>total_nfts_listed\<close>
  shrinks by 1.
\<close>

theorem buy_nft_sale:
  assumes l: "fmlookup (listings r) (object_id nft) = Some l"
    and pay: "price l \<le> coin_value payment"
    and sales: "unat (total_sales r) + 1 < 2 ^ 64"
    and volume: "unat (total_volume r) + unat (price l) < 2 ^ 64"
    and listed: "0 < unat (total_nfts_listed r)"
  shows "buy_nft r nft payment ctx =
           Inr (r\<lparr>listings := fmdrop (object_id nft) (listings r),
                   total_sales := total_sales r + 1,
                   total_volume := total_volume r + price l,
                   total_nfts_listed := total_nfts_listed r - 1\<rparr>,
                \<lparr>emitted = [NFTSold (object_id nft) (seller l) (sender ctx) (price l),
                            OwnerUpdated (object_id nft) (owner nft) (sender ctx)],
                 nft_sent = [(nft\<lparr>owner := sender ctx\<rparr>, sender ctx)],
                 coin_sent = [(payment, seller l)]\<rparr>)
         \<and> fmlookup (fmdrop (object_id nft) (listings r)) (object_id nft) = None
         \<and> unat (total_sales r + 1) = unat (total_sales r) + 1
         \<and> unat (total_volume r + price l) = unat (total_volume r) + unat (price l)
         \<and> unat (total_nfts_listed r - 1) + 1 = unat (total_nfts_listed r)"
proof -
  from sales have sales': "unat (total_sales r) + unat (1 :: u64) < 2 ^ 64"
    by simp
  have "buy_nft r nft payment ctx =
           Inr (r\<lparr>listings := fmdrop (object_id nft) (listings r),
                   total_sales := total_sales r + 1,
                   total_volume := total_volume r + price l,
                   total_nfts_listed := total_nfts_listed r - 1\<rparr>,
                \<lparr>emitted = [NFTSold (object_id nft) (seller l) (sender ctx) (price l),
                            OwnerUpdated (object_id nft) (owner nft) (sender ctx)],
                 nft_sent = [(nft\<lparr>owner := sender ctx\<rparr>, sender ctx)],
                 coin_sent = [(payment, seller l)]\<rparr>)"
    using l pay sales volume listed by (simp add: buy_nft_unfold not_less)
  moreover have "unat (total_sales r + 1) = unat (total_sales r) + 1"
    using unat_add_ok [OF sales'] by simp
  moreover note unat_add_ok [OF volume] unat_pred_ok [OF listed]
  ultimately show ?thesis by simp
qed

text \<open>
  The run of the specification: mint, list for 100, buy with a coin of 150. The seller
  receives the coin of 150; the registry shows one NFT minted, no listing, one sale and
  a volume of 100.
\<close>

theorem buy_nft_sale_witness:
  "fmlookup (listings listed_registry) (object_id asset_alice)
     = Some \<lparr>nft_id = 1, seller = alice, price = 100, listed = True\<rparr>
   \<and> (100 :: u64) \<le> coin_value coin150
   \<and> buy_nft listed_registry asset_alice coin150 ctx_bob =
       Inr (\<lparr>total_nfts_minted = 1, total_nfts_listed = 0, total_sales = 1, total_volume = 100,
             listings = fmempty\<rparr>,
            \<lparr>emitted = [NFTSold 1 alice bob 100, OwnerUpdated 1 alice bob],
             nft_sent = [(asset_alice\<lparr>owner := bob\<rparr>, bob)],
             coin_sent = [(coin150, alice)]\<rparr>)"
proof -
  let ?l = "\<lparr>nft_id = 1, seller = alice, price = 100 :: u64, listed = True\<rparr>"
  have l: "fmlookup (listings listed_registry) (object_id asset_alice) = Some ?l"
    by (simp add: listed_registry_eq asset_alice_def object_id_def)
  have pay: "price ?l \<le> coin_value coin150"
    by (simp add: coin150_def coin_value_def)
  have sales: "unat (total_sales listed_registry) + 1 < 2 ^ 64"
    by (simp add: listed_registry_eq)
  have volume: "unat (total_volume listed_registry) + unat (price ?l) < 2 ^ 64"
    by (simp add: listed_registry_eq)
  have listed: "0 < unat (total_nfts_listed listed_registry)"
    by (simp add: listed_registry_eq)
  from buy_nft_sale [OF l pay sales volume listed, where ctx = ctx_bob] l pay show ?thesis
    by (simp add: listed_registry_eq asset_alice_def object_id_def ctx_bob_def
        fmdrop_fmupd_same)
qed



text \<open>
  C10, as stated, promises success in every state with a Listing. As for C1 the checked
  addition to \<open>total_volume\<close> can abort: the marketplace address sells its NFT to itself at
  \<open>2 ^ 63\<close>, lists it again at that price, and its second purchase aborts.
\<close>

theorem seller_buys_own_listing_overflow_counterexample:
  "reachable mkt_addr self_trade_registry
   \<and> fmlookup (listings self_trade_registry) (object_id asset_mkt)
       = Some \<lparr>nft_id = 3, seller = sender ctx_mkt, price = 2 ^ 63, listed = True\<rparr>
   \<and> (2 ^ 63 :: u64) \<le> coin_value half_coin
   \<and> buy_nft self_trade_registry asset_mkt half_coin ctx_mkt = Inl ArithmeticError"
proof -
  have "reachable mkt_addr self_trade_registry"
    unfolding self_trade_registry_def by (rule reachable_run [OF reachable.init])
  then show ?thesis
    by (simp add: self_trade_registry_eq buy_nft_unfold sample_defs object_id_def coin_value_def)
qed

text \<open>
  C10, amended. \<open>buy_nft\<close> does not compare the buyer with the seller. When the sender is
  the seller of the Listing \<open>l\<close>, the payment covers \<open>price l\<close> and the counter updates stay
  within \<open>u64\<close>, the call returns: the payment coin goes back to the seller, the NFT goes to
  the seller with the owner field set to the seller, the Listing is gone, and \<open>total_sales\<close>
  and \<open>total_volume\<close> grow by 1 and by \<open>price l\<close>.
\<close>

theorem seller_buys_own_listing:
  assumes l: "fmlookup (listings r) (object_id nft) = Some l"
    and self: "sender ctx = seller l"
    and pay: "price l \<le> coin_value payment"
    and sales: "unat (total_sales r) + 1 < 2 ^ 64"
    and volume: "unat (total_volume r) + unat (price l) < 2 ^ 64"
    and listed: "0 < unat (total_nfts_listed r)"
  shows "\<exists>r' fx. buy_nft r nft payment ctx = Inr (r', fx)
           \<and> coin_sent fx = [(payment, seller l)]
           \<and> nft_sent fx = [(nft\<lparr>owner := seller l\<rparr>, seller l)]
           \<and> fmlookup (listings r') (object_id nft) = None
           \<and> unat (total_sales r') = unat (total_sales r) + 1
           \<and> unat (total_volume r') = unat (total_volume r) + unat (price l)"
proof -
  from sales have "unat (total_sales r) + unat (1 :: u64) < 2 ^ 64"
    by simp
  then have s: "unat (total_sales r + 1) = unat (total_sales r) + 1"
    using unat_add_ok [of "total_sales r" 1] by simp
  note v = unat_add_ok [OF volume]
  from l self pay sales volume listed s v show ?thesis
    by (simp add: buy_nft_unfold not_less)
qed

text \<open>The marketplace address buys the NFT that it listed for 100 with a coin of 150.\<close>

theorem seller_buys_own_listing_witness:
  "fmlookup (listings own_listing_registry) (object_id asset_mkt)
     = Some \<lparr>nft_id = 3, seller = mkt_addr, price = 100, listed = True\<rparr>
   \<and> sender ctx_mkt = mkt_addr
   \<and> (100 :: u64) \<le> coin_value coin150
   \<and> (\<exists>r' fx. buy_nft own_listing_registry asset_mkt coin150 ctx_mkt = Inr (r', fx)
         \<and> coin_sent fx = [(coin150, mkt_addr)]
         \<and> nft_sent fx = [(asset_mkt, mkt_addr)]
         \<and> fmlookup (listings r') (object_id asset_mkt) = None
         \<and> unat (total_sales r') = 1
         \<and> unat (total_volume r') = 100)"
proof -
  let ?l = "\<lparr>nft_id = 3, seller = mkt_addr, price = 100 :: u64, listed = True\<rparr>"
  have l: "fmlookup (listings own_listing_registry) (object_id asset_mkt) = Some ?l"
    by (simp add: own_listing_registry_eq asset_mkt_def object_id_def)
  have self: "sender ctx_mkt = seller ?l"
    by (simp add: ctx_mkt_def)
  have pay: "price ?l \<le> coin_value coin150"
    by (simp add: coin150_def coin_value_def)
  have sales: "unat (total_sales own_listing_registry) + 1 < 2 ^ 64"
    by (simp add: own_listing_registry_eq)
  have volume: "unat (total_volume own_listing_registry) + unat (price ?l) < 2 ^ 64"
    by (simp add: own_listing_registry_eq)
  have listed: "0 < unat (total_nfts_listed own_listing_registry)"
    by (simp add: own_listing_registry_eq)
  have same: "asset_mkt\<lparr>owner := mkt_addr\<rparr> = asset_mkt"
    by (simp add: asset_mkt_def)
  from seller_buys_own_listing [OF l self pay sales volume listed] l self pay same
  show ?thesis
    by (simp add: own_listing_registry_eq ctx_mkt_def)
qed

text \<open>
  A call that is not a listing of the asset \<open>i\<close> cannot make a Listing for \<open>i\<close> appear,
  whether it returns or aborts.
\<close>

lemma exec_keeps_unlisted:
  assumes ex: "exec mkt r c = Inr (r', fx)"
    and other: "\<not> lists_asset i c"
    and none: "fmlookup (listings r) i = None"
  shows "fmlookup (listings r') i = None"
proof (cases c)
  case (MintNft n d u ctx)
  with ex none show ?thesis
    by (auto simp: mint_nft_unfold split: if_splits)
next
  case (ListNft nft p ctx)
  with ex other none show ?thesis
    by (auto simp: list_nft_unfold split: if_splits)
next
  case (DelistNft nft ctx)
  with ex none show ?thesis
    by (auto simp: delist_nft_unfold split: option.splits if_splits)
next
  case (BuyNft nft payment ctx)
  with ex none show ?thesis
    by (auto simp: buy_nft_unfold split: option.splits if_splits)
next
  case (UpdateOwner nft new_owner ctx)
  with ex none show ?thesis
    by (auto split: sum.splits)
qed

lemma step_keeps_unlisted:
  "\<not> lists_asset i c \<Longrightarrow> fmlookup (listings r) i = None
     \<Longrightarrow> fmlookup (listings (step mkt r c)) i = None"
  using step_cases [of mkt r c] by (auto dest: exec_keeps_unlisted)

lemma run_keeps_unlisted:
  "\<forall>c \<in> set cs. \<not> lists_asset i c \<Longrightarrow> fmlookup (listings r) i = None
     \<Longrightarrow> fmlookup (listings (run mkt r cs)) i = None"
  unfolding run_def by (induction cs arbitrary: r) (simp_all add: step_keeps_unlisted)

text \<open>
  C7. Once \<open>buy_nft\<close> has returned for an asset, every later \<open>buy_nft\<close> for that asset
  aborts with \<open>ENotListed\<close> and changes nothing, whatever calls came in between, as long
  as none of them is a \<open>list_nft\<close> of the asset. Transactions on the shared registry are
  serialised, so two purchases of one Listing cannot both return.
\<close>

theorem second_buy_not_listed:
  assumes first: "buy_nft r nft payment ctx = Inr (r', fx)"
    and between: "\<forall>c \<in> set cs. \<not> lists_asset (object_id nft) c"
    and same: "object_id nft' = object_id nft"
  shows "buy_nft (run mkt r' cs) nft' payment' ctx' = Inl ENotListed
         \<and> step mkt (run mkt r' cs) (BuyNft nft' payment' ctx') = run mkt r' cs"
proof -
  from first have "fmlookup (listings r') (object_id nft) = None"
    by (auto simp: buy_nft_unfold split: option.splits if_splits)
  with between have "fmlookup (listings (run mkt r' cs)) (object_id nft') = None"
    by (simp add: same run_keeps_unlisted)
  then have "buy_nft (run mkt r' cs) nft' payment' ctx' = Inl ENotListed"
    by (simp add: buy_nft_unfold)
  then show ?thesis
    by (simp add: step_def)
qed

text \<open>
  After \<open>bob\<close> has bought the NFT of \<open>alice\<close>, a mint, a transfer of the NFT and the
  listing of another NFT follow; a second purchase of the NFT of \<open>alice\<close> is refused.
\<close>

theorem second_buy_not_listed_witness:
  "buy_nft listed_registry asset_alice coin150 ctx_bob =
       Inr (\<lparr>total_nfts_minted = 1, total_nfts_listed = 0, total_sales = 1, total_volume = 100,
             listings = fmempty\<rparr>,
            \<lparr>emitted = [NFTSold 1 alice bob 100, OwnerUpdated 1 alice bob],
             nft_sent = [(asset_alice\<lparr>owner := bob\<rparr>, bob)],
             coin_sent = [(coin150, alice)]\<rparr>)
   \<and> buy_nft
        (run mkt_addr
          \<lparr>total_nfts_minted = 1, total_nfts_listed = 0, total_sales = 1, total_volume = 100,
           listings = fmempty\<rparr>
          [MintNft [0x41] [0x42] [0x75] ctx_mkt,
           UpdateOwner (asset_alice\<lparr>owner := bob\<rparr>) alice ctx_bob,
           ListNft asset_mkt 100 ctx_mkt])
        asset_alice coin150 ctx_mkt
      = Inl ENotListed"
proof -
  let ?r' = "\<lparr>total_nfts_minted = 1 :: u64, total_nfts_listed = 0 :: u64, total_sales = 1 :: u64,
    total_volume = 100 :: u64, listings = fmempty :: (ID, Listing) fmap\<rparr>"
  let ?cs = "[MintNft [0x41] [0x42] [0x75] ctx_mkt,
    UpdateOwner (asset_alice\<lparr>owner := bob\<rparr>) alice ctx_bob, ListNft asset_mkt 100 ctx_mkt]"
  have first: "buy_nft listed_registry asset_alice coin150 ctx_bob =
       Inr (?r',
            \<lparr>emitted = [NFTSold 1 alice bob 100, OwnerUpdated 1 alice bob],
             nft_sent = [(asset_alice\<lparr>owner := bob\<rparr>, bob)],
             coin_sent = [(coin150, alice)]\<rparr>)"
    by (simp add: listed_registry_eq buy_nft_unfold sample_defs object_id_def coin_value_def
        fmdrop_fmupd_same)
  have between: "\<forall>c \<in> set ?cs. \<not> lists_asset (object_id asset_alice) c"
    by (simp add: object_id_def asset_alice_def asset_mkt_def)
  from second_buy_not_listed [OF first between refl, of mkt_addr coin150 ctx_mkt] first
  show ?thesis by simp
qed

text \<open>
  Listing and delisting in turn give the registry back as it was, and hand the NFT that
  is passed to \<open>delist_nft\<close>, as it is, to the sender, whatever its owner field says.
\<close>

lemma list_then_delist:
  assumes ex: "list_nft mkt r nft p ctx = Inr (r', fx)"
    and same: "object_id nft' = object_id nft"
  shows "delist_nft r' nft' ctx =
           Inr (r, \<lparr>emitted = [NFTDelisted (object_id nft) (sender ctx)],
                    nft_sent = [(nft', sender ctx)], coin_sent = []\<rparr>)"
proof -
  from ex have none: "fmlookup (listings r) (object_id nft) = None"
    and room: "unat (total_nfts_listed r) + unat (1 :: u64) < 2 ^ 64"
    and r': "r' = r\<lparr>listings := fmupd (object_id nft)
               \<lparr>nft_id = object_id nft, seller = sender ctx, price = p, listed = True\<rparr> (listings r),
               total_nfts_listed := total_nfts_listed r + 1\<rparr>"
    by (auto simp: list_nft_unfold split: if_splits)
  from none have undo: "fmdrop (object_id nft) (listings r) = listings r"
    by (simp add: fmdrop_idle fmdom_notI)
  from unat_add_ok [OF room] have pos: "unat (total_nfts_listed r + 1) \<noteq> 0"
    by simp
  from r' undo pos same show ?thesis
    by (simp add: delist_nft_unfold fmdrop_fmupd_same)
qed

text \<open>
  A call other than \<open>buy_nft\<close> and \<open>update_owner\<close> hands the NFT it was given on as it is.
\<close>

lemma exec_passes_asset_on:
  assumes ex: "exec mkt r c = Inr (r', fx)"
    and frame: "\<not> writes_owner c"
    and arg: "asset_in c = Some nft"
  shows "\<exists>a. nft_sent fx = [(nft, a)]"
proof (cases c)
  case (ListNft nft' p ctx)
  with ex arg show ?thesis
    by (auto simp: list_nft_unfold split: if_splits)
next
  case (DelistNft nft' ctx)
  with ex arg show ?thesis
    by (auto simp: delist_nft_unfold split: option.splits if_splits)
qed (use frame arg in simp_all)

text \<open>
  C8, as stated, says that a successful delist by the seller returns the asset with the
  owner field equal to the seller. \<open>delist_nft\<close> never reads the owner field. The
  marketplace address lists its own NFT and \<open>update_owner\<close> rewrites the owner field to
  \<open>bob\<close> (see C4); called by the seller with that NFT, \<open>delist_nft\<close> returns it to the
  seller with the owner field \<open>bob\<close>.
\<close>

theorem delist_after_transfer_counterexample:
  "fmlookup (listings own_listing_registry) (object_id asset_mkt)
     = Some \<lparr>nft_id = 3, seller = mkt_addr, price = 100, listed = True\<rparr>
   \<and> update_owner asset_mkt bob ctx_mkt =
       Inr \<lparr>emitted = [OwnerUpdated 3 mkt_addr bob],
            nft_sent = [(asset_mkt\<lparr>owner := bob\<rparr>, bob)], coin_sent = []\<rparr>
   \<and> sender ctx_mkt = mkt_addr
   \<and> delist_nft own_listing_registry (asset_mkt\<lparr>owner := bob\<rparr>) ctx_mkt =
       Inr (\<lparr>total_nfts_minted = 1, total_nfts_listed = 0, total_sales = 0, total_volume = 0,
             listings = fmempty\<rparr>,
            \<lparr>emitted = [NFTDelisted 3 mkt_addr],
             nft_sent = [(asset_mkt\<lparr>owner := bob\<rparr>, mkt_addr)], coin_sent = []\<rparr>)
   \<and> owner (asset_mkt\<lparr>owner := bob\<rparr>) = bob
   \<and> bob \<noteq> mkt_addr"
  by (simp add: own_listing_registry_eq delist_nft_unfold update_owner_def sample_defs
      object_id_def fmdrop_fmupd_same)

text \<open>
  C8, amended. \<open>list_nft\<close> sends the NFT on unchanged, its owner field being the seller of
  the new Listing; delisting that NFT then returns it to the seller with the same owner
  field and restores the registry. \<open>delist_nft\<close> in general returns the NFT it was given,
  unchanged, to the seller of the Listing: the owner field of the returned NFT is the
  one it was passed with, so it equals the seller exactly when it did on entry, and
  after a listing an NFT passed with a rewritten owner field comes back to the seller
  with that rewritten field. \<open>mint_nft\<close> makes a new NFT and touches no other. Of the five
  entry functions only \<open>buy_nft\<close> and \<open>update_owner\<close> send on an NFT whose owner field they
  have written.
\<close>

theorem owner_field_frame:
  "(list_nft mkt r nft p ctx = Inr (r', fx) \<longrightarrow>
      nft_sent fx = [(nft, mkt)] \<and> owner nft = sender ctx
      \<and> fmlookup (listings r') (object_id nft)
          = Some \<lparr>nft_id = object_id nft, seller = owner nft, price = p, listed = True\<rparr>
      \<and> delist_nft r' nft ctx =
          Inr (r, \<lparr>emitted = [NFTDelisted (object_id nft) (owner nft)],
                   nft_sent = [(nft, owner nft)], coin_sent = []\<rparr>))
   \<and> (delist_nft r nft ctx = Inr (r', fx) \<longrightarrow>
        (\<exists>l. fmlookup (listings r) (object_id nft) = Some l \<and> seller l = sender ctx
           \<and> nft_sent fx = [(nft, seller l)]
           \<and> ((\<exists>n. nft_sent fx = [(n, seller l)] \<and> owner n = seller l)
                \<longleftrightarrow> owner nft = seller l)))
   \<and> (list_nft mkt r nft p ctx = Inr (r', fx) \<and> new_owner \<noteq> sender ctx \<longrightarrow>
        delist_nft r' (nft\<lparr>owner := new_owner\<rparr>) ctx =
          Inr (r, \<lparr>emitted = [NFTDelisted (object_id nft) (sender ctx)],
                   nft_sent = [(nft\<lparr>owner := new_owner\<rparr>, sender ctx)], coin_sent = []\<rparr>)
        \<and> owner (nft\<lparr>owner := new_owner\<rparr>) \<noteq> sender ctx)
   \<and> (mint_nft r n d u ctx = Inr (r', fx) \<longrightarrow>
        nft_sent fx = [(\<lparr>uid = fresh_uid ctx, name = n, description = d, url = u,
                         creator = sender ctx, owner = sender ctx\<rparr>, sender ctx)])
   \<and> (exec mkt r c = Inr (r', fx) \<and> \<not> writes_owner c \<and> asset_in c = Some nft \<longrightarrow>
        (\<exists>a. nft_sent fx = [(nft, a)]))
   \<and> (buy_nft r nft payment ctx = Inr (r', fx) \<longrightarrow>
        nft_sent fx = [(nft\<lparr>owner := sender ctx\<rparr>, sender ctx)])
   \<and> (update_owner nft new_owner ctx = Inr fx' \<longrightarrow>
        nft_sent fx' = [(nft\<lparr>owner := new_owner\<rparr>, new_owner)])"
proof (intro conjI impI)
  assume ex: "list_nft mkt r nft p ctx = Inr (r', fx)"
  then show "nft_sent fx = [(nft, mkt)]" and own: "owner nft = sender ctx"
    and "fmlookup (listings r') (object_id nft)
          = Some \<lparr>nft_id = object_id nft, seller = owner nft, price = p, listed = True\<rparr>"
    by (auto simp: list_nft_unfold split: if_splits)
  from list_then_delist [OF ex refl] own
  show "delist_nft r' nft ctx =
          Inr (r, \<lparr>emitted = [NFTDelisted (object_id nft) (owner nft)],
                   nft_sent = [(nft, owner nft)], coin_sent = []\<rparr>)"
    by simp
next
  assume "delist_nft r nft ctx = Inr (r', fx)"
  then obtain l where l: "fmlookup (listings r) (object_id nft) = Some l"
    and s: "seller l = sender ctx" and sent: "nft_sent fx = [(nft, seller l)]"
    by (auto simp: delist_nft_unfold split: option.splits if_splits)
  from sent have "(\<exists>n. nft_sent fx = [(n, seller l)] \<and> owner n = seller l)
      \<longleftrightarrow> owner nft = seller l"
    by auto
  with l s sent
  show "\<exists>l. fmlookup (listings r) (object_id nft) = Some l \<and> seller l = sender ctx
           \<and> nft_sent fx = [(nft, seller l)]
           \<and> ((\<exists>n. nft_sent fx = [(n, seller l)] \<and> owner n = seller l)
                \<longleftrightarrow> owner nft = seller l)"
    by blast
next
  assume h: "list_nft mkt r nft p ctx = Inr (r', fx) \<and> new_owner \<noteq> sender ctx"
  then have ex: "list_nft mkt r nft p ctx = Inr (r', fx)"
    by simp
  have same: "object_id (nft\<lparr>owner := new_owner\<rparr>) = object_id nft"
    by (simp add: object_id_def)
  from list_then_delist [OF ex same]
  show "delist_nft r' (nft\<lparr>owner := new_owner\<rparr>) ctx =
          Inr (r, \<lparr>emitted = [NFTDelisted (object_id nft) (sender ctx)],
                   nft_sent = [(nft\<lparr>owner := new_owner\<rparr>, sender ctx)], coin_sent = []\<rparr>)" .
  from h show "owner (nft\<lparr>owner := new_owner\<rparr>) \<noteq> sender ctx"
    by simp
next
  assume "mint_nft r n d u ctx = Inr (r', fx)"
  then show "nft_sent fx = [(\<lparr>uid = fresh_uid ctx, name = n, description = d, url = u,
                         creator = sender ctx, owner = sender ctx\<rparr>, sender ctx)]"
    by (auto simp: mint_nft_unfold split: if_splits)
next
  assume "exec mkt r c = Inr (r', fx) \<and> \<not> writes_owner c \<and> asset_in c = Some nft"
  then show "\<exists>a. nft_sent fx = [(nft, a)]"
    by (blast intro: exec_passes_asset_on)
next
  assume "buy_nft r nft payment ctx = Inr (r', fx)"
  then show "nft_sent fx = [(nft\<lparr>owner := sender ctx\<rparr>, sender ctx)]"
    by (auto simp: buy_nft_unfold split: option.splits if_splits)
next
  assume "update_owner nft new_owner ctx = Inr fx'"
  then show "nft_sent fx' = [(nft\<lparr>owner := new_owner\<rparr>, new_owner)]"
    by (auto simp: update_owner_def split: if_splits)
qed

text \<open>
  \<open>alice\<close> lists her NFT for 100 on the initial registry and delists it. Had she called
  \<open>update_owner\<close> instead, the NFT would have gone to \<open>bob\<close> with a rewritten owner field;
  passed to \<open>delist_nft\<close> with that field, it comes back to \<open>alice\<close> as it is.
\<close>

theorem owner_field_frame_witness:
  "list_nft mkt_addr init_registry asset_alice 100 ctx_alice =
       Inr (init_registry\<lparr>listings := fmupd 1 \<lparr>nft_id = 1, seller = alice, price = 100, listed = True\<rparr> fmempty,
                          total_nfts_listed := 1\<rparr>,
            \<lparr>emitted = [NFTListed 1 alice 100], nft_sent = [(asset_alice, mkt_addr)],
             coin_sent = []\<rparr>)
   \<and> owner asset_alice = alice
   \<and> delist_nft
        (init_registry\<lparr>listings := fmupd 1 \<lparr>nft_id = 1, seller = alice, price = 100, listed = True\<rparr> fmempty,
                       total_nfts_listed := 1\<rparr>)
        asset_alice ctx_alice
      = Inr (init_registry,
             \<lparr>emitted = [NFTDelisted 1 alice], nft_sent = [(asset_alice, alice)], coin_sent = []\<rparr>)
   \<and> update_owner asset_alice bob ctx_alice =
       Inr \<lparr>emitted = [OwnerUpdated 1 alice bob],
            nft_sent = [(asset_alice\<lparr>owner := bob\<rparr>, bob)], coin_sent = []\<rparr>
   \<and> bob \<noteq> sender ctx_alice
   \<and> delist_nft
        (init_registry\<lparr>listings := fmupd 1 \<lparr>nft_id = 1, seller = alice, price = 100, listed = True\<rparr> fmempty,
                       total_nfts_listed := 1\<rparr>)
        (asset_alice\<lparr>owner := bob\<rparr>) ctx_alice
      = Inr (init_registry,
             \<lparr>emitted = [NFTDelisted 1 alice],
              nft_sent = [(asset_alice\<lparr>owner := bob\<rparr>, alice)], coin_sent = []\<rparr>)"
proof -
  let ?r' = "init_registry\<lparr>listings := fmupd 1 \<lparr>nft_id = 1, seller = alice, price = 100, listed = True\<rparr> fmempty,
                          total_nfts_listed := 1\<rparr>"
  let ?fx = "\<lparr>emitted = [NFTListed 1 alice 100], nft_sent = [(asset_alice, mkt_addr)],
             coin_sent = []\<rparr>"
  let ?fx' = "\<lparr>emitted = [OwnerUpdated 1 alice bob],
              nft_sent = [(asset_alice\<lparr>owner := bob\<rparr>, bob)], coin_sent = []\<rparr>"
  have ex: "list_nft mkt_addr init_registry asset_alice 100 ctx_alice = Inr (?r', ?fx)"
    by (simp add: list_nft_unfold init_registry_def sample_defs object_id_def)
  have up: "update_owner asset_alice bob ctx_alice = Inr ?fx'"
    by (simp add: update_owner_def sample_defs object_id_def)
  have other: "bob \<noteq> sender ctx_alice"
    by (simp add: sample_defs)
  from owner_field_frame [where mkt = mkt_addr and r = init_registry and nft = asset_alice
      and p = 100 and ctx = ctx_alice and r' = ?r' and fx = ?fx and new_owner = bob and fx' = ?fx']
    ex up other
  show ?thesis
    by (simp add: asset_alice_def ctx_alice_def object_id_def)
qed

text \<open>
  C6, as stated, says that the \<open>OwnerUpdated\<close> event of a purchase names the seller of the
  Listing as the old owner. The event takes the old owner from the owner field of the
  NFT that is passed in, not from the Listing. The marketplace address lists its own NFT
  and then calls \<open>update_owner\<close> with it, which the module allows; the NFT now names
  \<open>bob\<close> as owner while the Listing names the marketplace address as seller, and the
  purchase by \<open>bob\<close> emits \<open>OwnerUpdated\<close> with old owner \<open>bob\<close>.
\<close>

theorem sold_event_seller_differs_counterexample:
  "update_owner asset_mkt bob ctx_mkt =
       Inr \<lparr>emitted = [OwnerUpdated 3 mkt_addr bob],
            nft_sent = [(asset_mkt\<lparr>owner := bob\<rparr>, bob)], coin_sent = []\<rparr>
   \<and> fmlookup (listings own_listing_registry) (object_id (asset_mkt\<lparr>owner := bob\<rparr>))
       = Some \<lparr>nft_id = 3, seller = mkt_addr, price = 100, listed = True\<rparr>
   \<and> buy_nft own_listing_registry (asset_mkt\<lparr>owner := bob\<rparr>) coin150 ctx_bob =
       Inr (\<lparr>total_nfts_minted = 1, total_nfts_listed = 0, total_sales = 1, total_volume = 100,
             listings = fmempty\<rparr>,
            \<lparr>emitted = [NFTSold 3 mkt_addr bob 100, OwnerUpdated 3 bob bob],
             nft_sent = [(asset_mkt\<lparr>owner := bob\<rparr>, bob)],
             coin_sent = [(coin150, mkt_addr)]\<rparr>)
   \<and> bob \<noteq> mkt_addr"
  by (simp add: own_listing_registry_eq buy_nft_unfold update_owner_def sample_defs object_id_def
      coin_value_def fmdrop_fmupd_same)

text \<open>
  After \<open>list_nft\<close> the table holds the Listing with the sender as seller and the given
  price.
\<close>

lemma list_nft_listing:
  assumes ex: "list_nft mkt r nft p ctx = Inr (r', fx)"
  shows "fmlookup (listings r') (object_id nft)
           = Some \<lparr>nft_id = object_id nft, seller = sender ctx, price = p, listed = True\<rparr>"
    and "owner nft = sender ctx"
  using ex by (auto simp: list_nft_unfold split: if_splits)

text \<open>
  C6, amended. A \<open>buy_nft\<close> that returns emits exactly two events, in this order:
  \<open>NFTSold\<close> with the asset, the seller and the price of the removed Listing and the
  buyer, then \<open>OwnerUpdated\<close> with the asset, the owner field that the NFT had when it was
  passed in, and the buyer. The old owner of the second event is the seller of the
  Listing exactly when the NFT is passed with its owner field equal to that seller; it
  is so when \<open>buy_nft\<close> receives the NFT as \<open>list_nft\<close> accepted it. Each of the other four
  entry functions emits exactly one event when it returns.
\<close>

theorem events_of_call:
  "(exec mkt r c = Inr (r', fx) \<longrightarrow>
      (case c of
         BuyNft nft payment ctx \<Rightarrow>
           (\<exists>l. fmlookup (listings r) (object_id nft) = Some l
              \<and> emitted fx = [NFTSold (object_id nft) (seller l) (sender ctx) (price l),
                              OwnerUpdated (object_id nft) (owner nft) (sender ctx)]
              \<and> (emitted fx = [NFTSold (object_id nft) (seller l) (sender ctx) (price l),
                               OwnerUpdated (object_id nft) (seller l) (sender ctx)]
                   \<longleftrightarrow> owner nft = seller l))
       | MintNft n d u ctx \<Rightarrow>
           emitted fx = [NFTMinted (fresh_uid ctx) (sender ctx) (sender ctx) n u]
       | ListNft nft p ctx \<Rightarrow> emitted fx = [NFTListed (object_id nft) (sender ctx) p]
       | DelistNft nft ctx \<Rightarrow> emitted fx = [NFTDelisted (object_id nft) (sender ctx)]
       | UpdateOwner nft new_owner ctx \<Rightarrow>
           emitted fx = [OwnerUpdated (object_id nft) (sender ctx) new_owner]))
   \<and> (list_nft mkt r0 asset p0 ctx0 = Inr (r1, fx0)
        \<and> buy_nft r1 asset coin ctx1 = Inr (r2, fx1) \<longrightarrow>
        emitted fx1 = [NFTSold (object_id asset) (sender ctx0) (sender ctx1) p0,
                       OwnerUpdated (object_id asset) (sender ctx0) (sender ctx1)])"
proof (intro conjI impI)
  assume ex: "exec mkt r c = Inr (r', fx)"
  show "case c of
         BuyNft nft payment ctx \<Rightarrow>
           (\<exists>l. fmlookup (listings r) (object_id nft) = Some l
              \<and> emitted fx = [NFTSold (object_id nft) (seller l) (sender ctx) (price l),
                              OwnerUpdated (object_id nft) (owner nft) (sender ctx)]
              \<and> (emitted fx = [NFTSold (object_id nft) (seller l) (sender ctx) (price l),
                               OwnerUpdated (object_id nft) (seller l) (sender ctx)]
                   \<longleftrightarrow> owner nft = seller l))
       | MintNft n d u ctx \<Rightarrow>
           emitted fx = [NFTMinted (fresh_uid ctx) (sender ctx) (sender ctx) n u]
       | ListNft nft p ctx \<Rightarrow> emitted fx = [NFTListed (object_id nft) (sender ctx) p]
       | DelistNft nft ctx \<Rightarrow> emitted fx = [NFTDelisted (object_id nft) (sender ctx)]
       | UpdateOwner nft new_owner ctx \<Rightarrow>
           emitted fx = [OwnerUpdated (object_id nft) (sender ctx) new_owner]"
  proof (cases c)
    case (MintNft n d u ctx)
    with ex show ?thesis
      by (auto simp: mint_nft_unfold split: if_splits)
  next
    case (ListNft nft p ctx)
    with ex show ?thesis
      by (auto simp: list_nft_unfold split: if_splits)
  next
    case (DelistNft nft ctx)
    with ex show ?thesis
      by (auto simp: delist_nft_unfold split: option.splits if_splits)
  next
    case (BuyNft nft payment ctx)
    with ex obtain l where l: "fmlookup (listings r) (object_id nft) = Some l"
      and ev: "emitted fx = [NFTSold (object_id nft) (seller l) (sender ctx) (price l),
                            OwnerUpdated (object_id nft) (owner nft) (sender ctx)]"
      by (auto simp: buy_nft_unfold split: option.splits if_splits)
    from ev have "emitted fx = [NFTSold (object_id nft) (seller l) (sender ctx) (price l),
                               OwnerUpdated (object_id nft) (seller l) (sender ctx)]
        \<longleftrightarrow> owner nft = seller l"
      by auto
    with BuyNft l ev show ?thesis
      by simp
  next
    case (UpdateOwner nft new_owner ctx)
    with ex show ?thesis
      by (auto simp: update_owner_def split: sum.splits if_splits)
  qed
next
  assume h: "list_nft mkt r0 asset p0 ctx0 = Inr (r1, fx0)
        \<and> buy_nft r1 asset coin ctx1 = Inr (r2, fx1)"
  then have ex: "list_nft mkt r0 asset p0 ctx0 = Inr (r1, fx0)"
    by simp
  from h list_nft_listing [OF ex]
  show "emitted fx1 = [NFTSold (object_id asset) (sender ctx0) (sender ctx1) p0,
                       OwnerUpdated (object_id asset) (sender ctx0) (sender ctx1)]"
    by (auto simp: buy_nft_unfold split: if_splits)
qed

text \<open>
  The purchase by \<open>bob\<close> of the NFT that \<open>alice\<close> has listed, passed as she listed it:
  the old owner is the seller.
\<close>

theorem events_of_call_witness:
  "exec mkt_addr listed_registry (BuyNft asset_alice coin150 ctx_bob) =
       Inr (\<lparr>total_nfts_minted = 1, total_nfts_listed = 0, total_sales = 1, total_volume = 100,
             listings = fmempty\<rparr>,
            \<lparr>emitted = [NFTSold 1 alice bob 100, OwnerUpdated 1 alice bob],
             nft_sent = [(asset_alice\<lparr>owner := bob\<rparr>, bob)],
             coin_sent = [(coin150, alice)]\<rparr>)
   \<and> (\<exists>l. fmlookup (listings listed_registry) (object_id asset_alice) = Some l
         \<and> [NFTSold 1 alice bob 100, OwnerUpdated 1 alice bob]
             = [NFTSold (object_id asset_alice) (seller l) (sender ctx_bob) (price l),
                OwnerUpdated (object_id asset_alice) (seller l) (sender ctx_bob)]
         \<and> owner asset_alice = seller l)
   \<and> list_nft mkt_addr init_registry asset_alice 100 ctx_alice =
       Inr (init_registry\<lparr>listings := fmupd 1 \<lparr>nft_id = 1, seller = alice, price = 100, listed = True\<rparr> fmempty,
                          total_nfts_listed := 1\<rparr>,
            \<lparr>emitted = [NFTListed 1 alice 100], nft_sent = [(asset_alice, mkt_addr)],
             coin_sent = []\<rparr>)
   \<and> buy_nft
        (init_registry\<lparr>listings := fmupd 1 \<lparr>nft_id = 1, seller = alice, price = 100, listed = True\<rparr> fmempty,
                       total_nfts_listed := 1\<rparr>)
        asset_alice coin150 ctx_bob
      = Inr (\<lparr>total_nfts_minted = 0, total_nfts_listed = 0, total_sales = 1, total_volume = 100,
              listings = fmempty\<rparr>,
             \<lparr>emitted = [NFTSold 1 alice bob 100, OwnerUpdated 1 alice bob],
              nft_sent = [(asset_alice\<lparr>owner := bob\<rparr>, bob)],
              coin_sent = [(coin150, alice)]\<rparr>)"
proof -
  let ?r1 = "init_registry\<lparr>listings := fmupd 1 \<lparr>nft_id = 1, seller = alice, price = 100, listed = True\<rparr> fmempty,
                          total_nfts_listed := 1\<rparr>"
  let ?fx0 = "\<lparr>emitted = [NFTListed 1 alice 100], nft_sent = [(asset_alice, mkt_addr)],
             coin_sent = []\<rparr>"
  let ?r2 = "\<lparr>total_nfts_minted = 0 :: u64, total_nfts_listed = 0 :: u64, total_sales = 1 :: u64,
    total_volume = 100 :: u64, listings = fmempty :: (ID, Listing) fmap\<rparr>"
  let ?fx1 = "\<lparr>emitted = [NFTSold 1 alice bob 100, OwnerUpdated 1 alice bob],
              nft_sent = [(asset_alice\<lparr>owner := bob\<rparr>, bob)],
              coin_sent = [(coin150, alice)]\<rparr>"
  have ex: "exec mkt_addr listed_registry (BuyNft asset_alice coin150 ctx_bob) =
       Inr (\<lparr>total_nfts_minted = 1, total_nfts_listed = 0, total_sales = 1, total_volume = 100,
             listings = fmempty\<rparr>, ?fx1)"
    by (simp add: listed_registry_eq buy_nft_unfold sample_defs object_id_def coin_value_def
        fmdrop_fmupd_same)
  have li: "list_nft mkt_addr init_registry asset_alice 100 ctx_alice = Inr (?r1, ?fx0)"
    by (simp add: list_nft_unfold init_registry_def sample_defs object_id_def)
  have bu: "buy_nft ?r1 asset_alice coin150 ctx_bob = Inr (?r2, ?fx1)"
    by (simp add: buy_nft_unfold init_registry_def sample_defs object_id_def coin_value_def
        fmdrop_fmupd_same)
  from events_of_call [where mkt = mkt_addr and r = listed_registry
      and c = "BuyNft asset_alice coin150 ctx_bob" and fx = ?fx1
      and r' = "\<lparr>total_nfts_minted = 1, total_nfts_listed = 0, total_sales = 1,
        total_volume = 100, listings = fmempty\<rparr>"
      and ?r0.0 = init_registry and asset = asset_alice and ?p0.0 = 100 and ?ctx0.0 = ctx_alice
      and ?r1.0 = ?r1 and ?fx0.0 = ?fx0 and coin = coin150 and ?ctx1.0 = ctx_bob
      and ?r2.0 = ?r2 and ?fx1.0 = ?fx1]
    ex li bu
  show ?thesis
    by (auto simp: asset_alice_def ctx_bob_def ctx_alice_def object_id_def)
qed

text \<open>
  C4, as stated, says that \<open>update_owner\<close> fails while a Listing for the asset is active.
  The function has no access to the registry. In a reachable registry that lists the
  NFT of the marketplace address, that address transfers the NFT to \<open>bob\<close>: the call
  returns and the Listing stays.
\<close>

theorem transfer_while_listed_counterexample:
  "reachable mkt_addr own_listing_registry
   \<and> fmlookup (listings own_listing_registry) (object_id asset_mkt)
       = Some \<lparr>nft_id = 3, seller = mkt_addr, price = 100, listed = True\<rparr>
   \<and> update_owner asset_mkt bob ctx_mkt =
       Inr \<lparr>emitted = [OwnerUpdated 3 mkt_addr bob],
            nft_sent = [(asset_mkt\<lparr>owner := bob\<rparr>, bob)], coin_sent = []\<rparr>
   \<and> fmlookup (listings (step mkt_addr own_listing_registry (UpdateOwner asset_mkt bob ctx_mkt)))
        (object_id asset_mkt)
       = Some \<lparr>nft_id = 3, seller = mkt_addr, price = 100, listed = True\<rparr>"
proof -
  have "reachable mkt_addr own_listing_registry"
    unfolding own_listing_registry_def by (rule reachable_run [OF reachable.init])
  then show ?thesis
    by (simp add: own_listing_registry_eq update_owner_def step_def sample_defs object_id_def)
qed

text \<open>
  C4, amended. In every state, with or without a Listing for the asset, \<open>update_owner\<close>
  returns exactly when the sender is the owner recorded in the NFT, and aborts with
  \<open>ENotOwner\<close> otherwise; when it returns, the NFT goes to the new owner with the owner
  field rewritten, one \<open>OwnerUpdated\<close> event is emitted, and the registry, its table of
  Listings included, is what it was.
\<close>

theorem update_owner_ignores_listings:
  "exec mkt r (UpdateOwner nft new_owner ctx) =
     (if owner nft = sender ctx
      then Inr (r, \<lparr>emitted = [OwnerUpdated (object_id nft) (sender ctx) new_owner],
                    nft_sent = [(nft\<lparr>owner := new_owner\<rparr>, new_owner)],
                    coin_sent = []\<rparr>)
      else Inl ENotOwner)
   \<and> step mkt r (UpdateOwner nft new_owner ctx) = r
   \<and> (fmlookup (listings r) (object_id nft) = Some l \<and> owner nft = sender ctx \<longrightarrow>
        (\<exists>fx. exec mkt r (UpdateOwner nft new_owner ctx) = Inr (r, fx)
           \<and> nft_sent fx = [(nft\<lparr>owner := new_owner\<rparr>, new_owner)])
        \<and> fmlookup (listings (step mkt r (UpdateOwner nft new_owner ctx))) (object_id nft)
            = Some l)"
proof (intro conjI impI)
  show ex: "exec mkt r (UpdateOwner nft new_owner ctx) =
     (if owner nft = sender ctx
      then Inr (r, \<lparr>emitted = [OwnerUpdated (object_id nft) (sender ctx) new_owner],
                    nft_sent = [(nft\<lparr>owner := new_owner\<rparr>, new_owner)],
                    coin_sent = []\<rparr>)
      else Inl ENotOwner)"
    by (simp add: update_owner_def)
  then show same: "step mkt r (UpdateOwner nft new_owner ctx) = r"
    by (simp add: step_def)
  assume h: "fmlookup (listings r) (object_id nft) = Some l \<and> owner nft = sender ctx"
  with ex show "\<exists>fx. exec mkt r (UpdateOwner nft new_owner ctx) = Inr (r, fx)
           \<and> nft_sent fx = [(nft\<lparr>owner := new_owner\<rparr>, new_owner)]"
    by simp
  from h same
  show "fmlookup (listings (step mkt r (UpdateOwner nft new_owner ctx))) (object_id nft) = Some l"
    by simp
qed

text \<open>
  The marketplace address transfers the NFT that it has listed; \<open>bob\<close>, who is not its
  owner, cannot.
\<close>

theorem update_owner_ignores_listings_witness:
  "fmlookup (listings own_listing_registry) (object_id asset_mkt)
     = Some \<lparr>nft_id = 3, seller = mkt_addr, price = 100, listed = True\<rparr>
   \<and> owner asset_mkt = sender ctx_mkt
   \<and> exec mkt_addr own_listing_registry (UpdateOwner asset_mkt bob ctx_mkt) =
       Inr (own_listing_registry,
            \<lparr>emitted = [OwnerUpdated 3 mkt_addr bob],
             nft_sent = [(asset_mkt\<lparr>owner := bob\<rparr>, bob)], coin_sent = []\<rparr>)
   \<and> exec mkt_addr own_listing_registry (UpdateOwner asset_mkt alice ctx_bob) = Inl ENotOwner"
proof -
  have l: "fmlookup (listings own_listing_registry) (object_id asset_mkt)
     = Some \<lparr>nft_id = 3, seller = mkt_addr, price = 100, listed = True\<rparr>"
    by (simp add: own_listing_registry_eq asset_mkt_def object_id_def)
  have own: "owner asset_mkt = sender ctx_mkt" "owner asset_mkt \<noteq> sender ctx_bob"
    by (simp_all add: sample_defs)
  from update_owner_ignores_listings
      [where mkt = mkt_addr and r = own_listing_registry and nft = asset_mkt and new_owner = bob
        and ctx = ctx_mkt]
    update_owner_ignores_listings
      [where mkt = mkt_addr and r = own_listing_registry and nft = asset_mkt and new_owner = alice
        and ctx = ctx_bob]
    l own
  show ?thesis
    by (simp add: asset_mkt_def ctx_mkt_def object_id_def)
qed

text \<open>
  C5, as stated, gives \<open>Unauthorized\<close> for every caller who is not the owner. The price is
  checked first: a caller who is not the owner and offers the price 0 gets
  \<open>EInvalidPrice\<close>. So does \<open>bob\<close> with the NFT of \<open>alice\<close>, and so does the marketplace
  address with the NFT that \<open>alice\<close> has listed and that \<open>list_nft\<close> has sent to it.
\<close>

theorem list_nft_price_checked_first_counterexample:
  "owner asset_alice \<noteq> sender ctx_bob
   \<and> list_nft mkt_addr init_registry asset_alice 0 ctx_bob = Inl EInvalidPrice
   \<and> list_nft mkt_addr init_registry asset_alice 0 ctx_bob \<noteq> Inl ENotOwner
   \<and> owner asset_alice \<noteq> sender ctx_mkt
   \<and> list_nft mkt_addr listed_registry asset_alice 0 ctx_mkt = Inl EInvalidPrice"
  by (simp add: list_nft_unfold sample_defs)

text \<open>
  C5, amended. \<open>list_nft\<close> aborts with \<open>EInvalidPrice\<close> if the price is 0; otherwise with
  \<open>ENotOwner\<close> if the sender is not the owner recorded in the NFT; otherwise, if the table
  already holds a Listing for the asset, \<open>table::add\<close> aborts on the duplicate key (the
  module has no error constant of its own for this) and the Listing that was there
  stays; otherwise, if \<open>total_nfts_listed + 1\<close> fits in \<open>u64\<close>, the call returns, having
  added the Listing with the sender as seller, the given price and \<open>listed = true\<close>, and
  having incremented \<open>total_nfts_listed\<close>.
\<close>

theorem list_nft_outcomes:
  "(p = 0 \<longrightarrow> list_nft mkt r nft p ctx = Inl EInvalidPrice)
   \<and> (p \<noteq> 0 \<and> owner nft \<noteq> sender ctx \<longrightarrow> list_nft mkt r nft p ctx = Inl ENotOwner)
   \<and> (p \<noteq> 0 \<and> owner nft = sender ctx \<and> fmlookup (listings r) (object_id nft) = Some l \<longrightarrow>
        list_nft mkt r nft p ctx = Inl EFieldAlreadyExists
        \<and> step mkt r (ListNft nft p ctx) = r
        \<and> fmlookup (listings (step mkt r (ListNft nft p ctx))) (object_id nft) = Some l)
   \<and> (p \<noteq> 0 \<and> owner nft = sender ctx \<and> fmlookup (listings r) (object_id nft) = None
        \<and> unat (total_nfts_listed r) + 1 < 2 ^ 64 \<longrightarrow>
        list_nft mkt r nft p ctx =
          Inr (r\<lparr>listings := fmupd (object_id nft)
                    \<lparr>nft_id = object_id nft, seller = sender ctx, price = p, listed = True\<rparr>
                    (listings r),
                  total_nfts_listed := total_nfts_listed r + 1\<rparr>,
               \<lparr>emitted = [NFTListed (object_id nft) (sender ctx) p],
                nft_sent = [(nft, mkt)],
                coin_sent = []\<rparr>)
        \<and> unat (total_nfts_listed r + 1) = unat (total_nfts_listed r) + 1)"
proof (intro conjI impI)
  assume "p = 0"
  then show "list_nft mkt r nft p ctx = Inl EInvalidPrice"
    by (simp add: list_nft_unfold)
next
  assume "p \<noteq> 0 \<and> owner nft \<noteq> sender ctx"
  then show "list_nft mkt r nft p ctx = Inl ENotOwner"
    by (simp add: list_nft_unfold)
next
  assume h: "p \<noteq> 0 \<and> owner nft = sender ctx \<and> fmlookup (listings r) (object_id nft) = Some l"
  then show dup: "list_nft mkt r nft p ctx = Inl EFieldAlreadyExists"
    by (simp add: list_nft_unfold)
  then show same: "step mkt r (ListNft nft p ctx) = r"
    by (simp add: step_def)
  from h same show "fmlookup (listings (step mkt r (ListNft nft p ctx))) (object_id nft) = Some l"
    by simp
next
  assume h: "p \<noteq> 0 \<and> owner nft = sender ctx \<and> fmlookup (listings r) (object_id nft) = None
        \<and> unat (total_nfts_listed r) + 1 < 2 ^ 64"
  then show "list_nft mkt r nft p ctx =
          Inr (r\<lparr>listings := fmupd (object_id nft)
                    \<lparr>nft_id = object_id nft, seller = sender ctx, price = p, listed = True\<rparr>
                    (listings r),
                  total_nfts_listed := total_nfts_listed r + 1\<rparr>,
               \<lparr>emitted = [NFTListed (object_id nft) (sender ctx) p],
                nft_sent = [(nft, mkt)],
                coin_sent = []\<rparr>)"
    by (simp add: list_nft_unfold)
  from h show "unat (total_nfts_listed r + 1) = unat (total_nfts_listed r) + 1"
    using unat_add_ok [of "total_nfts_listed r" 1] by simp
qed

text \<open>
  The four cases on the NFT of \<open>alice\<close>: price 0, a foreign sender, a second listing, and
  a first listing.
\<close>

theorem list_nft_outcomes_witness:
  "list_nft mkt_addr listed_registry asset_alice 0 ctx_alice = Inl EInvalidPrice
   \<and> list_nft mkt_addr listed_registry asset_alice 7 ctx_bob = Inl ENotOwner
   \<and> list_nft mkt_addr listed_registry asset_alice 7 ctx_alice = Inl EFieldAlreadyExists
   \<and> fmlookup (listings (step mkt_addr listed_registry (ListNft asset_alice 7 ctx_alice)))
        (object_id asset_alice)
       = Some \<lparr>nft_id = 1, seller = alice, price = 100, listed = True\<rparr>
   \<and> list_nft mkt_addr init_registry asset_alice 7 ctx_alice =
       Inr (init_registry\<lparr>listings :=
                fmupd 1 \<lparr>nft_id = 1, seller = alice, price = 7, listed = True\<rparr> fmempty,
              total_nfts_listed := 1\<rparr>,
            \<lparr>emitted = [NFTListed 1 alice 7], nft_sent = [(asset_alice, mkt_addr)],
             coin_sent = []\<rparr>)"
proof -
  let ?l = "\<lparr>nft_id = 1, seller = alice, price = 100 :: u64, listed = True\<rparr>"
  have l: "fmlookup (listings listed_registry) (object_id asset_alice) = Some ?l"
    by (simp add: listed_registry_eq asset_alice_def object_id_def)
  have none: "fmlookup (listings init_registry) (object_id asset_alice) = None"
    by (simp add: init_registry_def)
  have room: "unat (total_nfts_listed init_registry) + 1 < 2 ^ 64"
    by (simp add: init_registry_def)
  have own: "owner asset_alice = sender ctx_alice" "owner asset_alice \<noteq> sender ctx_bob"
    by (simp_all add: sample_defs)
  from list_nft_outcomes [of 0 mkt_addr listed_registry asset_alice ctx_alice]
    list_nft_outcomes [of 7 mkt_addr listed_registry asset_alice ctx_bob]
    list_nft_outcomes [of 7 mkt_addr listed_registry asset_alice ctx_alice ?l]
    list_nft_outcomes [of 7 mkt_addr init_registry asset_alice ctx_alice]
    l none room own
  show ?thesis
    by (simp add: init_registry_def asset_alice_def ctx_alice_def object_id_def)
qed

text \<open>
  C9, as stated, says that the bytes of the URL are never validated. They pass through
  \<open>std::ascii::string\<close>: with a valid name and description, a URL holding the byte
  \<open>0xFF\<close> makes \<open>mint_nft\<close> abort.
\<close>

theorem mint_nft_url_not_ascii_counterexample:
  "internal_check_utf8 [0x41] \<and> internal_check_utf8 [0x42]
   \<and> mint_nft init_registry [0x41] [0x42] [0xFF] ctx_alice = Inl EInvalidASCIICharacter"
  by (simp add: mint_nft_unfold is_valid_char_def)

text \<open>
  C9, amended. If the name or the description is not valid UTF-8, \<open>mint_nft\<close> aborts,
  so the registry is unchanged and no event is emitted. With both valid, the call aborts
  if some byte of the URL is above \<open>0x7F\<close>; with an ASCII URL, of whatever form, it returns
  as long as \<open>total_nfts_minted + 1\<close> fits in \<open>u64\<close>.
\<close>

theorem mint_nft_validation:
  "(\<not> internal_check_utf8 n \<or> \<not> internal_check_utf8 d \<longrightarrow>
      (\<exists>e. mint_nft r n d u ctx = Inl e) \<and> step mkt r (MintNft n d u ctx) = r)
   \<and> (internal_check_utf8 n \<and> internal_check_utf8 d \<and> \<not> list_all is_valid_char u \<longrightarrow>
        mint_nft r n d u ctx = Inl EInvalidASCIICharacter)
   \<and> (internal_check_utf8 n \<and> internal_check_utf8 d \<and> list_all is_valid_char u
        \<and> unat (total_nfts_minted r) + 1 < 2 ^ 64 \<longrightarrow>
        mint_nft r n d u ctx =
          Inr (r\<lparr>total_nfts_minted := total_nfts_minted r + 1\<rparr>,
               \<lparr>emitted = [NFTMinted (fresh_uid ctx) (sender ctx) (sender ctx) n u],
                nft_sent = [(\<lparr>uid = fresh_uid ctx, name = n, description = d, url = u,
                             creator = sender ctx, owner = sender ctx\<rparr>, sender ctx)],
                coin_sent = []\<rparr>)
        \<and> unat (total_nfts_minted r + 1) = unat (total_nfts_minted r) + 1)"
proof (intro conjI impI)
  assume bad: "\<not> internal_check_utf8 n \<or> \<not> internal_check_utf8 d"
  then show ab: "\<exists>e. mint_nft r n d u ctx = Inl e"
    by (auto simp: mint_nft_unfold)
  then show "step mkt r (MintNft n d u ctx) = r"
    by (auto simp: step_def)
next
  assume "internal_check_utf8 n \<and> internal_check_utf8 d \<and> \<not> list_all is_valid_char u"
  then show "mint_nft r n d u ctx = Inl EInvalidASCIICharacter"
    by (simp add: mint_nft_unfold)
next
  assume h: "internal_check_utf8 n \<and> internal_check_utf8 d \<and> list_all is_valid_char u
        \<and> unat (total_nfts_minted r) + 1 < 2 ^ 64"
  then show "mint_nft r n d u ctx =
          Inr (r\<lparr>total_nfts_minted := total_nfts_minted r + 1\<rparr>,
               \<lparr>emitted = [NFTMinted (fresh_uid ctx) (sender ctx) (sender ctx) n u],
                nft_sent = [(\<lparr>uid = fresh_uid ctx, name = n, description = d, url = u,
                             creator = sender ctx, owner = sender ctx\<rparr>, sender ctx)],
                coin_sent = []\<rparr>)"
    by (simp add: mint_nft_unfold)
  from h show "unat (total_nfts_minted r + 1) = unat (total_nfts_minted r) + 1"
    using unat_add_ok [of "total_nfts_minted r" 1] by simp
qed

text \<open>
  An ill-formed name, an ill-formed description, a URL with two bytes above \<open>0x7F\<close>, and
  a mint that returns.
\<close>

theorem mint_nft_validation_witness:
  "\<not> internal_check_utf8 [0xC3, 0x28]
   \<and> (\<exists>e. mint_nft init_registry [0xC3, 0x28] [0x42] [0x75] ctx_alice = Inl e)
   \<and> step mkt_addr init_registry (MintNft [0xC3, 0x28] [0x42] [0x75] ctx_alice) = init_registry
   \<and> (\<exists>e. mint_nft init_registry [0x41] [0xC3, 0x28] [0x75] ctx_alice = Inl e)
   \<and> mint_nft init_registry [0x41] [0x42] [0xC3, 0xA9] ctx_alice = Inl EInvalidASCIICharacter
   \<and> mint_nft init_registry [0x41] [0x42] [0x75] ctx_alice =
       Inr (init_registry\<lparr>total_nfts_minted := 1\<rparr>,
            \<lparr>emitted = [NFTMinted 1 alice alice [0x41] [0x75]],
             nft_sent = [(asset_alice, alice)], coin_sent = []\<rparr>)"
proof -
  have bad: "\<not> internal_check_utf8 [0xC3, 0x28]"
    by (simp add: cont_byte_def)
  have good: "internal_check_utf8 [0x41]" "internal_check_utf8 [0x42]"
    by simp_all
  have ascii: "list_all is_valid_char [0x75]" "\<not> list_all is_valid_char [0xC3, 0xA9]"
    by (simp_all add: is_valid_char_def)
  have room: "unat (total_nfts_minted init_registry) + 1 < 2 ^ 64"
    by (simp add: init_registry_def)
  from mint_nft_validation [where n = "[0xC3, 0x28]" and d = "[0x42]" and r = init_registry
      and u = "[0x75]" and ctx = ctx_alice and mkt = mkt_addr]
    mint_nft_validation [where n = "[0x41]" and d = "[0xC3, 0x28]" and r = init_registry
      and u = "[0x75]" and ctx = ctx_alice and mkt = mkt_addr]
    mint_nft_validation [where n = "[0x41]" and d = "[0x42]" and r = init_registry
      and u = "[0xC3, 0xA9]" and ctx = ctx_alice and mkt = mkt_addr]
    mint_nft_validation [where n = "[0x41]" and d = "[0x42]" and r = init_registry
      and u = "[0x75]" and ctx = ctx_alice and mkt = mkt_addr]
    bad good ascii room
  show ?thesis
    by (simp add: init_registry_def asset_alice_def ctx_alice_def)
qed

end
